theory Spec2Isabelle
  imports Main "HOL-Library.Sublist"
begin

section \<open>Asynchronous operations that may throw\<close>

text \<open>
  Every operation of the suite is a straight-line \<^verbatim>\<open>async\<close> function (or a plain static
  method) running on one thread of one test. An operation is modelled as a function from the
  state it runs in to its outcome and the state it leaves behind. The outcome is a sum:
  \<open>Inl e\<close> when the operation throws (its promise rejects with) \<open>e\<close>, \<open>Inr v\<close> when it
  returns (resolves to) \<open>v\<close>. The state is handed back in both cases, because a call
  that ends in a timeout may already have changed the browser.
\<close>

type_synonym ('e, 'a, 's) operation = "'s \<Rightarrow> ('e + 'a) \<times> 's"

text \<open>\<^verbatim>\<open>return v\<close>, and the implicit \<^verbatim>\<open>return undefined\<close> at the end of a body.\<close>

definition returning :: "'a \<Rightarrow> ('e, 'a, 's) operation" where
  "returning v s = (Inr v, s)"

text \<open>
  \<^verbatim>\<open>const x = await m; rest(x)\<close>: when \<open>m\<close> throws, the exception leaves the enclosing
  function at once and the rest is not run. No function of the repository contains a
  \<^verbatim>\<open>try\<close>, so this is the only way control passes from one statement to the next.
\<close>

definition await :: "('e, 'a, 's) operation \<Rightarrow> ('a \<Rightarrow> ('e, 'b, 's) operation) \<Rightarrow> ('e, 'b, 's) operation" where
  "await m rest s = (case m s of (Inl e, s') \<Rightarrow> (Inl e, s') | (Inr x, s') \<Rightarrow> rest x s')"

section \<open>The data factory (LoginDataFactory)\<close>

text \<open>
  \<^verbatim>\<open>interface LoginCredentials { username: string; password: string }\<close>.
  The interface is a compile-time annotation only. At run time a field holds whatever the
  expression evaluated to, and an absent key of \<^verbatim>\<open>process.env\<close> evaluates to
  \<^verbatim>\<open>undefined\<close>. A field is therefore a \<open>string option\<close>, \<open>None\<close> being
  \<^verbatim>\<open>undefined\<close>.
\<close>

record LoginCredentials =
  username :: "string option"
  password :: "string option"

text \<open>\<^verbatim>\<open>process.env\<close>: a key is either absent or bound to a string.\<close>

type_synonym environment = "string \<rightharpoonup> string"

text \<open>
  What the factory can observe of the process: the environment and the internal state of the
  fake-data generator (a seeded pseudo-random generator, of some type \<open>'r\<close>).
\<close>

record 'r process =
  env :: environment
  rng :: 'r

text \<open>
  The two functions of the third-party library \<^verbatim>\<open>@faker-js/faker\<close> that the factory
  calls. The library is not part of the repository, so it is a parameter: each function reads
  the generator state, yields a string (or throws) and leaves a new generator state.
\<close>

record ('r, 'e) faker =
  internet_userName :: "('e, string, 'r) operation"
  internet_password :: "('e, string, 'r) operation"

text \<open>A call into the library touches the generator state of the process and nothing else.\<close>

definition on_rng :: "('e, 'a, 'r) operation \<Rightarrow> ('e, 'a, 'r process) operation" where
  "on_rng g w = (case g (rng w) of (x, r') \<Rightarrow> (x, w\<lparr>rng := r'\<rparr>))"

text \<open>
  \<^verbatim>\<open>
  static validCredentials(): LoginCredentials {
    return {
      username: process.env.VALID_USERNAME!,
      password: process.env.VALID_USER_PASSWORD!,
    };
  }
  \<close>
  The postfix \<^verbatim>\<open>!\<close> is TypeScript's non-null assertion. It only changes the static type
  of the expression and is erased by the compiler: the emitted JavaScript is the bare
  property read \<^verbatim>\<open>process.env.VALID_USERNAME\<close>, with no check and no \<^verbatim>\<open>throw\<close>.
\<close>

definition validCredentials :: "('e, LoginCredentials, 'r process) operation" where
  "validCredentials w =
     (Inr \<lparr> username = env w ''VALID_USERNAME'',
            password = env w ''VALID_USER_PASSWORD'' \<rparr>, w)"

text \<open>
  \<^verbatim>\<open>
  static invalidCredentials(): LoginCredentials {
    return {
      username: faker.internet.userName(),
      password: faker.internet.password(),
    };
  }
  \<close>
  The properties of an object literal are evaluated in the order they are written.
\<close>

definition invalidCredentials :: "('r, 'e) faker \<Rightarrow> ('e, LoginCredentials, 'r process) operation" where
  "invalidCredentials F =
     await (on_rng (internet_userName F)) (\<lambda>u.
     await (on_rng (internet_password F)) (\<lambda>p.
     returning \<lparr> username = Some u, password = Some p \<rparr>))"

text \<open>
  \<^verbatim>\<open>
  static randomPassword(): string {
    return faker.internet.password();
  }
  \<close>
\<close>

definition randomPassword :: "('r, 'e) faker \<Rightarrow> ('e, string, 'r process) operation" where
  "randomPassword F = await (on_rng (internet_password F)) returning"

section \<open>The page object (LoginPage)\<close>

text \<open>
  A \<^verbatim>\<open>Page\<close> is a handle on one tab of the browser that the test runner owns. A
  \<^verbatim>\<open>Locator\<close> is a description of how to find an element, tied to the page it was
  obtained from; creating one does not touch the browser.
\<close>

datatype Page = PageHandle nat

datatype selector =
    ByPlaceholder string
  | ByRole string string
  | ByTestId string

datatype Locator = Locator (owner: Page) (selector: selector)

definition getByPlaceholder :: "Page \<Rightarrow> string \<Rightarrow> Locator" where
  "getByPlaceholder p text = Locator p (ByPlaceholder text)"

text \<open>\<^verbatim>\<open>page.getByRole(role, { name })\<close>\<close>

definition getByRole :: "Page \<Rightarrow> string \<Rightarrow> string \<Rightarrow> Locator" where
  "getByRole p role name = Locator p (ByRole role name)"

definition getByTestId :: "Page \<Rightarrow> string \<Rightarrow> Locator" where
  "getByTestId p testId = Locator p (ByTestId testId)"

text \<open>
  The operations of the automation engine that the page object calls, as a parameter: the
  engine is a third-party library driving a real browser. \<open>'s\<close> is the state of the browser
  and of the application in it, \<open>'e\<close> what the engine throws (a timeout, for one).
  \<^verbatim>\<open>page.goto\<close> resolves to a response object that no caller in the repository looks at;
  it is left out. \<^verbatim>\<open>textContent\<close> resolves to a string or \<^verbatim>\<open>null\<close>.
\<close>

record ('s, 'e) engine =
  goto :: "Page \<Rightarrow> string \<Rightarrow> ('e, unit, 's) operation"
  fill :: "Locator \<Rightarrow> string \<Rightarrow> ('e, unit, 's) operation"
  click :: "Locator \<Rightarrow> ('e, unit, 's) operation"
  textContent :: "Locator \<Rightarrow> ('e, string option, 's) operation"
  isVisible :: "Locator \<Rightarrow> ('e, bool, 's) operation"

text \<open>
  \<^verbatim>\<open>
  export class LoginPage {
    private readonly usernameInput: Locator;
    private readonly passwordInput: Locator;
    private readonly loginButton: Locator;
    private readonly errorMessage: Locator;

    constructor(private page: Page) {
      this.usernameInput = page.getByPlaceholder("Username");
      this.passwordInput = page.getByPlaceholder("Password");
      this.loginButton = page.getByRole("button", { name: "Login" });
      this.errorMessage = page.getByTestId("error");
    }
  \<close>
  No method assigns to a field, so the object is a value fixed by its constructor and the
  methods take it as an argument.
\<close>

record LoginPage =
  page :: Page
  usernameInput :: Locator
  passwordInput :: Locator
  loginButton :: Locator
  errorMessage :: Locator

definition new_LoginPage :: "Page \<Rightarrow> LoginPage" where
  "new_LoginPage p =
     \<lparr> page = p,
       usernameInput = getByPlaceholder p ''Username'',
       passwordInput = getByPlaceholder p ''Password'',
       loginButton = getByRole p ''button'' ''Login'',
       errorMessage = getByTestId p ''error'' \<rparr>"

text \<open>\<^verbatim>\<open>async navigate() { await this.page.goto("/"); }\<close>\<close>

definition navigate :: "('s, 'e) engine \<Rightarrow> LoginPage \<Rightarrow> ('e, unit, 's) operation" where
  "navigate E lp = await (goto E (page lp) ''/'') (\<lambda>_. returning ())"

text \<open>\<^verbatim>\<open>async enterUsername(username: string) { await this.usernameInput.fill(username); }\<close>\<close>

definition enterUsername :: "('s, 'e) engine \<Rightarrow> LoginPage \<Rightarrow> string \<Rightarrow> ('e, unit, 's) operation" where
  "enterUsername E lp name = await (fill E (usernameInput lp) name) (\<lambda>_. returning ())"

text \<open>\<^verbatim>\<open>async enterPassword(password: string) { await this.passwordInput.fill(password); }\<close>\<close>

definition enterPassword :: "('s, 'e) engine \<Rightarrow> LoginPage \<Rightarrow> string \<Rightarrow> ('e, unit, 's) operation" where
  "enterPassword E lp pw = await (fill E (passwordInput lp) pw) (\<lambda>_. returning ())"

text \<open>\<^verbatim>\<open>async clickLoginButton() { await this.loginButton.click(); }\<close>\<close>

definition clickLoginButton :: "('s, 'e) engine \<Rightarrow> LoginPage \<Rightarrow> ('e, unit, 's) operation" where
  "clickLoginButton E lp = await (click E (loginButton lp)) (\<lambda>_. returning ())"

text \<open>
  \<^verbatim>\<open>
  async login(username: string, password: string) {
    await this.enterUsername(username);
    await this.enterPassword(password);
    await this.clickLoginButton();
  }
  \<close>
\<close>

definition login :: "('s, 'e) engine \<Rightarrow> LoginPage \<Rightarrow> string \<Rightarrow> string \<Rightarrow> ('e, unit, 's) operation" where
  "login E lp name pw =
     await (enterUsername E lp name) (\<lambda>_.
     await (enterPassword E lp pw) (\<lambda>_.
     await (clickLoginButton E lp) (\<lambda>_.
     returning ())))"

text \<open>\<^verbatim>\<open>async getErrorMessage() { return await this.errorMessage.textContent(); }\<close>\<close>

definition getErrorMessage :: "('s, 'e) engine \<Rightarrow> LoginPage \<Rightarrow> ('e, string option, 's) operation" where
  "getErrorMessage E lp = await (textContent E (errorMessage lp)) returning"

text \<open>\<^verbatim>\<open>async isErrorMessageVisible() { return await this.errorMessage.isVisible(); }\<close>\<close>

definition isErrorMessageVisible :: "('s, 'e) engine \<Rightarrow> LoginPage \<Rightarrow> ('e, bool, 's) operation" where
  "isErrorMessageVisible E lp = await (isVisible E (errorMessage lp)) returning"

section \<open>Observing the calls made to the engine\<close>

text \<open>
  Which operations a method asks of the engine, and in which order, is observed by wrapping
  the engine: the wrapped engine behaves as the given one and appends every call it
  receives, whether the call returns or throws, to a log kept beside the browser state.
\<close>

datatype call =
    Goto Page string
  | Fill Locator string
  | Click Locator
  | TextContent Locator
  | IsVisible Locator

definition logged :: "call \<Rightarrow> ('e, 'a, 's) operation \<Rightarrow> ('e, 'a, 's \<times> call list) operation" where
  "logged c m = (\<lambda>(s, log). case m s of (x, s') \<Rightarrow> (x, (s', log @ [c])))"

definition logging :: "('s, 'e) engine \<Rightarrow> ('s \<times> call list, 'e) engine" where
  "logging E =
     \<lparr> goto = (\<lambda>p url. logged (Goto p url) (goto E p url)),
       fill = (\<lambda>l text. logged (Fill l text) (fill E l text)),
       click = (\<lambda>l. logged (Click l) (click E l)),
       textContent = (\<lambda>l. logged (TextContent l) (textContent E l)),
       isVisible = (\<lambda>l. logged (IsVisible l) (isVisible E l)) \<rparr>"

text \<open>The calls an operation makes when it is started in browser state \<open>s\<close>.\<close>

definition calls_made :: "('e, 'a, 's \<times> call list) operation \<Rightarrow> 's \<Rightarrow> call list" where
  "calls_made m s = snd (snd (m (s, [])))"

text \<open>The page a call is addressed to: the page itself, or the page its locator is tied to.\<close>

fun call_page :: "call \<Rightarrow> Page" where
  "call_page (Goto p url) = p"
| "call_page (Fill l text) = owner l"
| "call_page (Click l) = owner l"
| "call_page (TextContent l) = owner l"
| "call_page (IsVisible l) = owner l"

text \<open>
  A call stays within a page object when it navigates the object's page or acts on one of
  the object's four stored locators.
\<close>

fun within :: "LoginPage \<Rightarrow> call \<Rightarrow> bool" where
  "within lp (Goto p url) = (p = page lp)"
| "within lp (Fill l text) = (l = usernameInput lp \<or> l = passwordInput lp)"
| "within lp (Click l) = (l = loginButton lp)"
| "within lp (TextContent l) = (l = errorMessage lp)"
| "within lp (IsVisible l) = (l = errorMessage lp)"

text \<open>A call that only reads the page, as opposed to one that types, clicks or navigates.\<close>

fun is_query :: "call \<Rightarrow> bool" where
  "is_query (TextContent l) = True"
| "is_query (IsVisible l) = True"
| "is_query c = False"

section \<open>Specifications to compare with\<close>

text \<open>
  Sequential composition as the specification words it: the actions run one after the
  other in the order listed, and the first one that fails ends the run with its error.
\<close>

fun sequentially :: "('e, unit, 's) operation list \<Rightarrow> ('e, unit, 's) operation" where
  "sequentially [] s = (Inr (), s)"
| "sequentially (a # as) s =
     (case a s of (Inl e, s') \<Rightarrow> (Inl e, s') | (Inr u, s') \<Rightarrow> sequentially as s')"

text \<open>
  The composite login of the specification: fill the username field with the username,
  then fill the password field with the password, then click the login button.
\<close>

definition login_spec :: "('s, 'e) engine \<Rightarrow> LoginPage \<Rightarrow> string \<Rightarrow> string \<Rightarrow> ('e, unit, 's) operation" where
  "login_spec E lp name pw =
     sequentially [fill E (usernameInput lp) name, fill E (passwordInput lp) pw, click E (loginButton lp)]"

text \<open>
  Modelled from the spec: \<^verbatim>\<open>faker.internet.password()\<close> belongs to the third-party
  package \<^verbatim>\<open>@faker-js/faker\<close> and is missing from the repository. The specification asks
  that a generated password is always a non-empty string; for the library function this
  says that, in every generator state, it returns (does not throw) a string other than the
  empty one.
\<close>

definition password_nonempty :: "('r, 'e) faker \<Rightarrow> bool" where
  "password_nonempty F = (\<forall>r. \<exists>pw r'. internet_password F r = (Inr pw, r') \<and> pw \<noteq> [])"

text \<open>
  The engine's two queries, \<^verbatim>\<open>textContent\<close> and \<^verbatim>\<open>isVisible\<close>, are meant to look at
  the page without changing it. That is a property of the engine, not of the page object:
\<close>

definition queries_read_only :: "('s, 'e) engine \<Rightarrow> bool" where
  "queries_read_only E = (\<forall>l s. snd (textContent E l s) = s \<and> snd (isVisible E l s) = s)"

section \<open>Concrete collaborators for evaluation\<close>

text \<open>
  A small deterministic stand-in for the fake-data generator: its state counts the calls
  made so far.
\<close>

definition counting_faker :: "(nat, string) faker" where
  "counting_faker =
     \<lparr> internet_userName = (\<lambda>n. (Inr (if n = 0 then ''standard_user'' else ''Alva_Kub42''), Suc n)),
       internet_password = (\<lambda>n. (Inr (replicate (Suc n) CHR ''x''), Suc n)) \<rparr>"

text \<open>A generator that gives up once its state reaches zero.\<close>

definition exhaustible_faker :: "(nat, string) faker" where
  "exhaustible_faker =
     \<lparr> internet_userName = (\<lambda>n. if n = 0 then (Inl ''out of data'', 0) else (Inr ''Alva_Kub42'', n - 1)),
       internet_password = (\<lambda>n. if n = 0 then (Inl ''out of data'', 0) else (Inr ''hunter2'', n - 1)) \<rparr>"

text \<open>The configuration of the README, and the same with the user name left out.\<close>

definition readme_env :: environment where
  "readme_env =
     [''BASE_URL'' \<mapsto> ''https://www.saucedemo.com'',
      ''VALID_USERNAME'' \<mapsto> ''standard_user'',
      ''VALID_USER_PASSWORD'' \<mapsto> ''secret_sauce'']"

definition incomplete_env :: environment where
  "incomplete_env =
     [''BASE_URL'' \<mapsto> ''https://www.saucedemo.com'',
      ''VALID_USER_PASSWORD'' \<mapsto> ''secret_sauce'']"

text \<open>
  Another process environment with the same two credentials: the base URL differs and a
  variable that the suite never names is set as well.
\<close>

definition staging_env :: environment where
  "staging_env =
     [''BASE_URL'' \<mapsto> ''http://localhost:3000'',
      ''HOME'' \<mapsto> ''/home/runner'',
      ''VALID_USERNAME'' \<mapsto> ''standard_user'',
      ''VALID_USER_PASSWORD'' \<mapsto> ''secret_sauce'']"

text \<open>
  An engine whose state is the number of calls that will still succeed; once it is used up
  every call times out. Its queries report a visible banner with a fixed text.
\<close>

definition countdown :: "'a \<Rightarrow> (string, 'a, nat) operation" where
  "countdown v n = (if n = 0 then (Inl ''TimeoutError'', 0) else (Inr v, n - 1))"

definition countdown_engine :: "(nat, string) engine" where
  "countdown_engine =
     \<lparr> goto = (\<lambda>p url. countdown ()),
       fill = (\<lambda>l text. countdown ()),
       click = (\<lambda>l. countdown ()),
       textContent = (\<lambda>l. countdown (Some ''Epic sadface: Username is required'')),
       isVisible = (\<lambda>l. countdown True) \<rparr>"

text \<open>An engine over a page that records what was typed and whose queries change nothing.\<close>

record form_state =
  typed :: "(Locator \<times> string) list"
  clicks :: nat
  banner :: "string option"

definition form_engine :: "(form_state, string) engine" where
  "form_engine =
     \<lparr> goto = (\<lambda>p url s. (Inr (), s\<lparr>typed := [], clicks := 0, banner := None\<rparr>)),
       fill = (\<lambda>l text s. (Inr (), s\<lparr>typed := (l, text) # typed s\<rparr>)),
       click = (\<lambda>l s. (Inr (), s\<lparr>clicks := Suc (clicks s),
                  banner := Some ''Epic sadface: Username and password do not match any user in this service''\<rparr>)),
       textContent = (\<lambda>l s. (Inr (banner s), s)),
       isVisible = (\<lambda>l s. (Inr (banner s \<noteq> None), s)) \<rparr>"

definition blank_form :: form_state where
  "blank_form = \<lparr> typed = [], clicks = 0, banner = None \<rparr>"

definition error_form :: form_state where
  "error_form = \<lparr> typed = [], clicks = 1, banner = Some ''Epic sadface: Username is required'' \<rparr>"

text \<open>
  Every call that the seven methods of a page object make when each is started in browser
  state \<open>s\<close>, one method after the other in the order of the class body.
\<close>

definition calls_of_methods :: "('s, 'e) engine \<Rightarrow> LoginPage \<Rightarrow> string \<Rightarrow> string \<Rightarrow> 's \<Rightarrow> call list" where
  "calls_of_methods E lp name pw s =
     calls_made (navigate (logging E) lp) s
   @ calls_made (enterUsername (logging E) lp name) s
   @ calls_made (enterPassword (logging E) lp pw) s
   @ calls_made (clickLoginButton (logging E) lp) s
   @ calls_made (login (logging E) lp name pw) s
   @ calls_made (getErrorMessage (logging E) lp) s
   @ calls_made (isErrorMessageVisible (logging E) lp) s"

section \<open>Basic facts\<close>

lemma await_returning: "await m returning = m"
  by (rule ext) (simp add: await_def returning_def split: prod.split sum.split)

lemma await_unit: "await m (\<lambda>_. returning ()) = (m :: ('e, unit, 's) operation)"
  by (rule ext) (simp add: await_def returning_def split: prod.split sum.split)

lemma logged_run: "logged c m (s, log) = (fst (m s), (snd (m s), log @ [c]))"
  by (simp add: logged_def split: prod.split)

lemma logging_sel:
  "goto (logging E) p url = logged (Goto p url) (goto E p url)"
  "fill (logging E) l text = logged (Fill l text) (fill E l text)"
  "click (logging E) l = logged (Click l) (click E l)"
  "textContent (logging E) l = logged (TextContent l) (textContent E l)"
  "isVisible (logging E) l = logged (IsVisible l) (isVisible E l)"
  by (simp_all add: logging_def)

text \<open>A method whose body is a single awaited call is that call.\<close>

lemma navigate_eq: "navigate E lp = goto E (page lp) ''/''"
  by (simp add: navigate_def await_unit await_returning)

lemma enterUsername_eq: "enterUsername E lp name = fill E (usernameInput lp) name"
  by (simp add: enterUsername_def await_unit await_returning)

lemma enterPassword_eq: "enterPassword E lp pw = fill E (passwordInput lp) pw"
  by (simp add: enterPassword_def await_unit await_returning)

lemma clickLoginButton_eq: "clickLoginButton E lp = click E (loginButton lp)"
  by (simp add: clickLoginButton_def await_unit await_returning)

lemma getErrorMessage_eq: "getErrorMessage E lp = textContent E (errorMessage lp)"
  by (simp add: getErrorMessage_def await_returning)

lemma isErrorMessageVisible_eq: "isErrorMessageVisible E lp = isVisible E (errorMessage lp)"
  by (simp add: isErrorMessageVisible_def await_returning)

lemma randomPassword_eq: "randomPassword F w = on_rng (internet_password F) w"
  by (simp add: randomPassword_def await_returning)

lemma login_unfold:
  "login E lp name pw s =
     (case fill E (usernameInput lp) name s of
        (Inl e, s1) \<Rightarrow> (Inl e, s1)
      | (Inr u, s1) \<Rightarrow>
          (case fill E (passwordInput lp) pw s1 of
             (Inl e, s2) \<Rightarrow> (Inl e, s2)
           | (Inr u, s2) \<Rightarrow> click E (loginButton lp) s2))"
  by (simp add: login_def enterUsername_eq enterPassword_eq clickLoginButton_eq
        await_unit await_returning)
     (simp add: await_def returning_def split: prod.split sum.split)

lemma single_calls:
  "calls_made (navigate (logging E) lp) s = [Goto (page lp) ''/'']"
  "calls_made (enterUsername (logging E) lp name) s = [Fill (usernameInput lp) name]"
  "calls_made (enterPassword (logging E) lp pw) s = [Fill (passwordInput lp) pw]"
  "calls_made (clickLoginButton (logging E) lp) s = [Click (loginButton lp)]"
  "calls_made (getErrorMessage (logging E) lp) s = [TextContent (errorMessage lp)]"
  "calls_made (isErrorMessageVisible (logging E) lp) s = [IsVisible (errorMessage lp)]"
  by (simp_all add: calls_made_def navigate_eq enterUsername_eq enterPassword_eq
      clickLoginButton_eq getErrorMessage_eq isErrorMessageVisible_eq logging_sel logged_run)

lemma login_calls:
  "calls_made (login (logging E) lp name pw) s =
     (case fill E (usernameInput lp) name s of
        (Inl e, s1) \<Rightarrow> [Fill (usernameInput lp) name]
      | (Inr u, s1) \<Rightarrow>
          (case fill E (passwordInput lp) pw s1 of
             (Inl e, s2) \<Rightarrow> [Fill (usernameInput lp) name, Fill (passwordInput lp) pw]
           | (Inr u, s2) \<Rightarrow>
               [Fill (usernameInput lp) name, Fill (passwordInput lp) pw, Click (loginButton lp)]))"
  by (simp add: calls_made_def login_unfold logging_sel logged_run split: prod.split sum.split)
     (auto simp: fst_def snd_def split: prod.splits)

lemma login_calls_within: "list_all (within lp) (calls_made (login (logging E) lp name pw) s)"
  by (simp add: login_calls split: prod.split sum.split)

lemma new_LoginPage_owner:
  "owner (usernameInput (new_LoginPage p)) = p"
  "owner (passwordInput (new_LoginPage p)) = p"
  "owner (loginButton (new_LoginPage p)) = p"
  "owner (errorMessage (new_LoginPage p)) = p"
  "page (new_LoginPage p) = p"
  by (simp_all add: new_LoginPage_def getByPlaceholder_def getByRole_def getByTestId_def)

lemma login_calls_page:
  "list_all (\<lambda>c. call_page c = p) (calls_made (login (logging E) (new_LoginPage p) name pw) s)"
  by (simp add: login_calls new_LoginPage_owner split: prod.split sum.split)

section \<open>The data factory: configured credentials\<close>

text \<open>
  Claim C1, as the specification states it: \<open>validCredentials\<close> throws whenever
  \<^verbatim>\<open>VALID_USERNAME\<close> or \<^verbatim>\<open>VALID_USER_PASSWORD\<close> is absent from the environment.
  The code does not: with \<^verbatim>\<open>VALID_USERNAME\<close> absent and the password configured it
  returns a record whose \<open>username\<close> is \<^verbatim>\<open>undefined\<close>.
\<close>

theorem validCredentials_missing_username_returns:
  "incomplete_env ''VALID_USERNAME'' = None
   \<and> validCredentials \<lparr> env = incomplete_env, rng = (0::nat) \<rparr> =
       (Inr \<lparr> username = None, password = Some ''secret_sauce'' \<rparr> :: string + LoginCredentials,
        \<lparr> env = incomplete_env, rng = 0 \<rparr>)"
  by (simp add: validCredentials_def incomplete_env_def)

text \<open>
  Claim C1, amended: \<open>validCredentials\<close> checks nothing and never throws. In every
  process state it returns a record whose two fields are what the environment holds under
  \<^verbatim>\<open>VALID_USERNAME\<close> and \<^verbatim>\<open>VALID_USER_PASSWORD\<close> (\<^verbatim>\<open>undefined\<close> for an absent
  variable) and leaves the process state as it was; when both variables are present, the
  record holds the two configured strings.
\<close>

theorem validCredentials_reads_configuration:
  "(\<exists>c. (validCredentials w :: ('e + LoginCredentials) \<times> 'r process) = (Inr c, w)
        \<and> username c = env w ''VALID_USERNAME''
        \<and> password c = env w ''VALID_USER_PASSWORD'')
   \<and> (env w ''VALID_USERNAME'' = Some u \<and> env w ''VALID_USER_PASSWORD'' = Some p
        \<longrightarrow> (validCredentials w :: ('e + LoginCredentials) \<times> 'r process)
              = (Inr \<lparr> username = Some u, password = Some p \<rparr>, w))"
  by (simp add: validCredentials_def)

theorem validCredentials_reads_configuration_witness:
  "readme_env ''VALID_USERNAME'' = Some ''standard_user''
   \<and> readme_env ''VALID_USER_PASSWORD'' = Some ''secret_sauce''
   \<and> validCredentials \<lparr> env = readme_env, rng = (0::nat) \<rparr> =
       (Inr \<lparr> username = Some ''standard_user'', password = Some ''secret_sauce'' \<rparr> :: string + LoginCredentials,
        \<lparr> env = readme_env, rng = 0 \<rparr>)"
  using validCredentials_reads_configuration
    [where ?'e = string and w = "\<lparr> env = readme_env, rng = (0::nat) \<rparr>"
       and u = "''standard_user''" and p = "''secret_sauce''"]
  by (simp add: readme_env_def)

text \<open>
  Claim C2: \<open>validCredentials\<close> is determined by the two configured values alone. Two
  calls, in any two process states, return equal records exactly when the two environments
  agree on \<^verbatim>\<open>VALID_USERNAME\<close> and on \<^verbatim>\<open>VALID_USER_PASSWORD\<close>: no other variable
  of the environment and no state of the random source has a part in the result. In
  particular a call made after any call of the factory (which may have advanced the random
  source) returns what the earlier call would have returned.
\<close>

theorem validCredentials_deterministic:
  fixes c1 c2 c :: environment and F :: "('r, 'e) faker" and w :: "'r process"
  shows
    "(c1 ''VALID_USERNAME'' = c2 ''VALID_USERNAME''
        \<and> c1 ''VALID_USER_PASSWORD'' = c2 ''VALID_USER_PASSWORD''
      \<longrightarrow> (fst (validCredentials \<lparr> env = c1, rng = r1 \<rparr>) :: 'e + LoginCredentials)
            = fst (validCredentials \<lparr> env = c2, rng = r2 \<rparr>))
   \<and> ((fst (validCredentials \<lparr> env = c1, rng = r1 \<rparr>) :: 'e + LoginCredentials)
            = fst (validCredentials \<lparr> env = c2, rng = r2 \<rparr>)
      \<longrightarrow> c1 ''VALID_USERNAME'' = c2 ''VALID_USERNAME''
            \<and> c1 ''VALID_USER_PASSWORD'' = c2 ''VALID_USER_PASSWORD'')
   \<and> (fst (validCredentials \<lparr> env = c, rng = r1 \<rparr>) :: 'e + LoginCredentials)
        = fst (validCredentials \<lparr> env = c, rng = r2 \<rparr>)
   \<and> (fst (validCredentials (snd (validCredentials w :: ('e + LoginCredentials) \<times> 'r process)))
          :: 'e + LoginCredentials) = fst (validCredentials w)
   \<and> (fst (validCredentials (snd (invalidCredentials F w))) :: 'e + LoginCredentials)
        = fst (validCredentials w)
   \<and> (fst (validCredentials (snd (randomPassword F w))) :: 'e + LoginCredentials)
        = fst (validCredentials w)"
  by (simp add: validCredentials_def invalidCredentials_def randomPassword_def await_def
      on_rng_def returning_def split: prod.split sum.split)

theorem validCredentials_deterministic_witness:
  "readme_env ''BASE_URL'' \<noteq> staging_env ''BASE_URL''
   \<and> readme_env ''HOME'' \<noteq> staging_env ''HOME''
   \<and> readme_env ''VALID_USERNAME'' = staging_env ''VALID_USERNAME''
   \<and> readme_env ''VALID_USER_PASSWORD'' = staging_env ''VALID_USER_PASSWORD''
   \<and> (fst (validCredentials \<lparr> env = readme_env, rng = (0::nat) \<rparr>) :: string + LoginCredentials)
       = fst (validCredentials \<lparr> env = staging_env, rng = (41::nat) \<rparr>)"
proof -
  have a: "readme_env ''VALID_USERNAME'' = staging_env ''VALID_USERNAME''
           \<and> readme_env ''VALID_USER_PASSWORD'' = staging_env ''VALID_USER_PASSWORD''"
    by (simp add: readme_env_def staging_env_def)
  have b: "readme_env ''BASE_URL'' \<noteq> staging_env ''BASE_URL''
           \<and> readme_env ''HOME'' \<noteq> staging_env ''HOME''"
    by (simp add: readme_env_def staging_env_def)
  show ?thesis
    using a b validCredentials_deterministic
      [where ?'e = string and ?'r = nat and ?c1.0 = readme_env and ?c2.0 = staging_env
         and ?r1.0 = "0::nat" and ?r2.0 = "41::nat", THEN conjunct1]
    by simp
qed

section \<open>The data factory: generated data\<close>

text \<open>
  Claim C10: what \<open>invalidCredentials\<close> and \<open>randomPassword\<close> return, and the state in
  which they leave the random source, are the same in two processes that agree on the state
  of the random source, whatever their environments (\<^verbatim>\<open>BASE_URL\<close>,
  \<^verbatim>\<open>VALID_USERNAME\<close>, \<^verbatim>\<open>VALID_USER_PASSWORD\<close> or any other variable) hold.
\<close>

theorem generated_data_ignores_configuration:
  "fst (invalidCredentials F \<lparr> env = c1, rng = r \<rparr>) = fst (invalidCredentials F \<lparr> env = c2, rng = r \<rparr>)
   \<and> rng (snd (invalidCredentials F \<lparr> env = c1, rng = r \<rparr>))
       = rng (snd (invalidCredentials F \<lparr> env = c2, rng = r \<rparr>))
   \<and> fst (randomPassword F \<lparr> env = c1, rng = r \<rparr>) = fst (randomPassword F \<lparr> env = c2, rng = r \<rparr>)
   \<and> rng (snd (randomPassword F \<lparr> env = c1, rng = r \<rparr>))
       = rng (snd (randomPassword F \<lparr> env = c2, rng = r \<rparr>))"
  by (simp add: invalidCredentials_def randomPassword_def await_def
      on_rng_def returning_def split: prod.split sum.split)

text \<open>
  Claim C5: \<open>randomPassword\<close> returns a non-empty string, at every call; nothing is asked
  of two successive results beyond that. The string is the one the library function
  \<^verbatim>\<open>faker.internet.password()\<close> yields, handed on as it is, so the property is that
  of the library function: provided the library never yields the empty string
  (\<open>password_nonempty\<close>), a call and the call after it each return a string of length
  greater than zero.
\<close>

theorem randomPassword_nonempty:
  fixes F :: "('r, 'e) faker" and w :: "'r process"
  assumes "password_nonempty F"
  shows "\<exists>pw1 w1 pw2 w2.
           randomPassword F w = (Inr pw1, w1) \<and> 0 < length pw1
         \<and> randomPassword F w1 = (Inr pw2, w2) \<and> 0 < length pw2"
proof -
  from assms obtain pw1 r1 where 1: "internet_password F (rng w) = (Inr pw1, r1)" "pw1 \<noteq> []"
    unfolding password_nonempty_def by blast
  from assms obtain pw2 r2 where 2: "internet_password F r1 = (Inr pw2, r2)" "pw2 \<noteq> []"
    unfolding password_nonempty_def by blast
  have "randomPassword F w = (Inr pw1, w\<lparr>rng := r1\<rparr>)"
    using 1 by (simp add: randomPassword_eq on_rng_def)
  moreover have "randomPassword F (w\<lparr>rng := r1\<rparr>) = (Inr pw2, w\<lparr>rng := r2\<rparr>)"
    using 2 by (simp add: randomPassword_eq on_rng_def)
  ultimately show ?thesis using 1 2 by auto
qed

theorem randomPassword_nonempty_witness:
  "password_nonempty counting_faker
   \<and> (\<exists>pw1 w1 pw2 w2.
         randomPassword counting_faker \<lparr> env = readme_env, rng = 0 \<rparr> = (Inr pw1, w1) \<and> 0 < length pw1
       \<and> randomPassword counting_faker w1 = (Inr pw2, w2) \<and> 0 < length pw2)"
proof -
  have h: "password_nonempty counting_faker"
    by (simp add: password_nonempty_def counting_faker_def)
  show ?thesis
    using h randomPassword_nonempty [OF h, of "\<lparr> env = readme_env, rng = 0 \<rparr>"] by simp
qed

text \<open>
  Claim C7: \<open>invalidCredentials\<close> does nothing to keep its user name apart from the
  configured valid one. Whenever the generator, in its current state, yields the very string
  bound to \<^verbatim>\<open>VALID_USERNAME\<close>, that string is returned as the user name. Each call is a
  fresh draw: the next call returns whatever the generator yields from the state the
  previous call left, with no regard to earlier results (so nothing keeps \<open>u'\<close> below
  apart from \<open>u\<close>).
\<close>

theorem invalidCredentials_may_collide:
  fixes F :: "('r, 'e) faker" and w :: "'r process"
  assumes "internet_userName F (rng w) = (Inr u, r1)"
    and "internet_password F r1 = (Inr p, r2)"
    and "env w ''VALID_USERNAME'' = Some u"
    and "internet_userName F r2 = (Inr u', r3)"
    and "internet_password F r3 = (Inr p', r4)"
  shows "invalidCredentials F w
           = (Inr \<lparr> username = env w ''VALID_USERNAME'', password = Some p \<rparr>, w\<lparr>rng := r2\<rparr>)
       \<and> invalidCredentials F (w\<lparr>rng := r2\<rparr>)
           = (Inr \<lparr> username = Some u', password = Some p' \<rparr>, w\<lparr>rng := r4\<rparr>)"
  using assms
  by (simp add: invalidCredentials_def await_def on_rng_def returning_def)

theorem invalidCredentials_may_collide_witness:
  "readme_env ''VALID_USERNAME'' = Some ''standard_user''
   \<and> invalidCredentials counting_faker \<lparr> env = readme_env, rng = 0 \<rparr>
       = (Inr \<lparr> username = Some ''standard_user'', password = Some ''xx'' \<rparr>,
          \<lparr> env = readme_env, rng = 2 \<rparr>)
   \<and> invalidCredentials counting_faker \<lparr> env = readme_env, rng = 2 \<rparr>
       = (Inr \<lparr> username = Some ''Alva_Kub42'', password = Some ''xxxx'' \<rparr>,
          \<lparr> env = readme_env, rng = 4 \<rparr>)"
proof -
  have a: "internet_userName counting_faker (rng \<lparr> env = readme_env, rng = 0 \<rparr>) = (Inr ''standard_user'', 1)"
    by (simp add: counting_faker_def)
  have b: "internet_password counting_faker 1 = (Inr ''xx'', 2)"
    by (simp add: counting_faker_def numeral_2_eq_2)
  have c: "env \<lparr> env = readme_env, rng = (0::nat) \<rparr> ''VALID_USERNAME'' = Some ''standard_user''"
    by (simp add: readme_env_def)
  have d: "internet_userName counting_faker 2 = (Inr ''Alva_Kub42'', 3)"
    by (simp add: counting_faker_def)
  have e: "internet_password counting_faker 3 = (Inr ''xxxx'', 4)"
    by (simp add: counting_faker_def numeral_eq_Suc)
  show ?thesis
    using c invalidCredentials_may_collide [OF a b c d e] by simp
qed

text \<open>Two calls in a row can also return the same pair.\<close>

lemma invalidCredentials_may_repeat:
  "fst (invalidCredentials exhaustible_faker \<lparr> env = readme_env, rng = 4 \<rparr>)
     = Inr \<lparr> username = Some ''Alva_Kub42'', password = Some ''hunter2'' \<rparr>
   \<and> fst (invalidCredentials exhaustible_faker
            (snd (invalidCredentials exhaustible_faker \<lparr> env = readme_env, rng = 4 \<rparr>)))
     = Inr \<lparr> username = Some ''Alva_Kub42'', password = Some ''hunter2'' \<rparr>"
  by (simp add: invalidCredentials_def await_def on_rng_def returning_def exhaustible_faker_def)

section \<open>The page object: composite login\<close>

text \<open>
  Claim C3: for every user name and password, \<open>login\<close> is the sequential composition of
  the three single actions, in the order fill the username field, fill the password field,
  click the login button, and it asks nothing else of the engine: the calls it makes are an
  initial part of those three (cut short only by a failing call), and all three, in that
  order, whenever it returns.
\<close>

theorem login_is_sequential_composition:
  fixes E :: "('s, 'e) engine"
  shows "login E lp name pw =
           sequentially [enterUsername E lp name, enterPassword E lp pw, clickLoginButton E lp]
       \<and> login E lp name pw = login_spec E lp name pw
       \<and> prefix (calls_made (login (logging E) lp name pw) s)
            [Fill (usernameInput lp) name, Fill (passwordInput lp) pw, Click (loginButton lp)]
       \<and> (fst (login E lp name pw s) = Inr () \<longrightarrow>
            calls_made (login (logging E) lp name pw) s =
              [Fill (usernameInput lp) name, Fill (passwordInput lp) pw, Click (loginButton lp)])"
proof (intro conjI)
  show "login E lp name pw =
           sequentially [enterUsername E lp name, enterPassword E lp pw, clickLoginButton E lp]"
    by (rule ext)
       (simp add: login_unfold enterUsername_eq enterPassword_eq clickLoginButton_eq
          split: prod.split sum.split)
  show "login E lp name pw = login_spec E lp name pw"
    by (rule ext) (simp add: login_unfold login_spec_def split: prod.split sum.split)
  show "prefix (calls_made (login (logging E) lp name pw) s)
            [Fill (usernameInput lp) name, Fill (passwordInput lp) pw, Click (loginButton lp)]"
    by (simp add: login_calls split: prod.split sum.split)
  show "fst (login E lp name pw s) = Inr () \<longrightarrow>
            calls_made (login (logging E) lp name pw) s =
              [Fill (usernameInput lp) name, Fill (passwordInput lp) pw, Click (loginButton lp)]"
    by (simp add: login_calls login_unfold split: prod.split sum.split)
qed

theorem login_is_sequential_composition_witness:
  "fst (login form_engine (new_LoginPage (PageHandle 0)) ''standard_user'' ''secret_sauce'' blank_form) = Inr ()
   \<and> calls_made (login (logging form_engine) (new_LoginPage (PageHandle 0)) ''standard_user'' ''secret_sauce'') blank_form =
       [Fill (Locator (PageHandle 0) (ByPlaceholder ''Username'')) ''standard_user'',
        Fill (Locator (PageHandle 0) (ByPlaceholder ''Password'')) ''secret_sauce'',
        Click (Locator (PageHandle 0) (ByRole ''button'' ''Login''))]"
proof -
  have h: "fst (login form_engine (new_LoginPage (PageHandle 0)) ''standard_user'' ''secret_sauce'' blank_form) = Inr ()"
    by (simp add: login_def enterUsername_def enterPassword_def clickLoginButton_def await_def
        returning_def form_engine_def)
  show ?thesis
    using h login_is_sequential_composition
      [of form_engine "new_LoginPage (PageHandle 0)" "''standard_user''" "''secret_sauce''" blank_form]
    by (simp add: new_LoginPage_def getByPlaceholder_def getByRole_def)
qed

section \<open>The page object: locators and the page they belong to\<close>

text \<open>
  Claim C8: the four locators of a page object are obtained in its constructor, from the page
  handed to the constructor, and they all belong to that page. Every call that any method
  makes afterwards either navigates the object's page or acts on one of the four stored
  locators, so every call is addressed to the page of the constructor. (No method assigns to
  a field, and no method asks the page for a locator again.)
\<close>

theorem locators_fixed_at_construction:
  fixes E :: "('s, 'e) engine"
  shows "new_LoginPage p =
           \<lparr> page = p,
             usernameInput = getByPlaceholder p ''Username'',
             passwordInput = getByPlaceholder p ''Password'',
             loginButton = getByRole p ''button'' ''Login'',
             errorMessage = getByTestId p ''error'' \<rparr>
       \<and> list_all (\<lambda>l. owner l = p)
            [usernameInput (new_LoginPage p), passwordInput (new_LoginPage p),
             loginButton (new_LoginPage p), errorMessage (new_LoginPage p)]
       \<and> list_all (within lp) (calls_of_methods E lp name pw s)
       \<and> list_all (\<lambda>c. call_page c = p) (calls_of_methods E (new_LoginPage p) name pw s)"
  by (simp add: calls_of_methods_def single_calls login_calls_within login_calls_page
      new_LoginPage_owner)
     (simp add: new_LoginPage_def)

theorem locators_fixed_at_construction_witness:
  "calls_of_methods form_engine (new_LoginPage (PageHandle 7)) ''standard_user'' ''secret_sauce'' blank_form \<noteq> []
   \<and> list_all (\<lambda>c. call_page c = PageHandle 7)
       (calls_of_methods form_engine (new_LoginPage (PageHandle 7)) ''standard_user'' ''secret_sauce'' blank_form)
   \<and> list_all (within (new_LoginPage (PageHandle 7)))
       (calls_of_methods form_engine (new_LoginPage (PageHandle 7)) ''standard_user'' ''secret_sauce'' blank_form)"
  using locators_fixed_at_construction
    [of "PageHandle 7" "new_LoginPage (PageHandle 7)" form_engine "''standard_user''" "''secret_sauce''" blank_form,
     THEN conjunct2]
  by (simp add: calls_of_methods_def single_calls)

section \<open>The page object: the error banner accessors\<close>

text \<open>
  Claim C9: \<open>getErrorMessage\<close> and \<open>isErrorMessageVisible\<close> only read the error banner.
  Each makes exactly one call to the engine, a query (of the text content, of the
  visibility) on the error banner's locator, and returns what the query returns; it never
  fills, clicks or navigates. With an engine whose queries leave the page as it is, both
  accessors leave the page state unchanged.
\<close>

theorem error_accessors_read_only:
  fixes E :: "('s, 'e) engine"
  shows "calls_made (getErrorMessage (logging E) lp) s = [TextContent (errorMessage lp)]
       \<and> calls_made (isErrorMessageVisible (logging E) lp) s = [IsVisible (errorMessage lp)]
       \<and> fst (getErrorMessage E lp s) = fst (textContent E (errorMessage lp) s)
       \<and> fst (isErrorMessageVisible E lp s) = fst (isVisible E (errorMessage lp) s)
       \<and> (queries_read_only E \<longrightarrow>
            snd (getErrorMessage E lp s) = s \<and> snd (isErrorMessageVisible E lp s) = s)"
proof (intro conjI)
  show "queries_read_only E \<longrightarrow>
          snd (getErrorMessage E lp s) = s \<and> snd (isErrorMessageVisible E lp s) = s"
    by (simp add: getErrorMessage_eq isErrorMessageVisible_eq queries_read_only_def)
qed (simp_all add: calls_made_def logging_sel logged_run getErrorMessage_eq isErrorMessageVisible_eq)

theorem error_accessors_read_only_witness:
  "queries_read_only form_engine
   \<and> getErrorMessage form_engine (new_LoginPage (PageHandle 0)) error_form
       = (Inr (Some ''Epic sadface: Username is required''), error_form)
   \<and> isErrorMessageVisible form_engine (new_LoginPage (PageHandle 0)) error_form
       = (Inr True, error_form)"
proof -
  have h: "queries_read_only form_engine"
    by (simp add: queries_read_only_def form_engine_def)
  show ?thesis
    using h error_accessors_read_only [of form_engine "new_LoginPage (PageHandle 0)" error_form]
    by (simp add: form_engine_def new_LoginPage_def error_form_def prod_eq_iff)
qed

section \<open>Errors\<close>

text \<open>
  Claim C4: no operation of the page object or of the data factory catches, retries or
  suppresses an error. An operation throws \<open>e\<close> and leaves state \<open>s'\<close> exactly when the
  first failing call inside it (to the engine, to the generator) threw \<open>e\<close> and left
  \<open>s'\<close>: the error reaches the caller as it was raised and nothing runs after it. No
  call is repeated: each method other than \<open>login\<close> makes one call to the engine, and
  \<open>login\<close> at most three.
\<close>

theorem errors_propagate_unchanged:
  fixes E :: "('s, 'e) engine" and F :: "('r, 'f) faker"
  shows
    "(navigate E lp s = (Inl e, s') \<longleftrightarrow> goto E (page lp) ''/'' s = (Inl e, s'))
   \<and> (enterUsername E lp name s = (Inl e, s') \<longleftrightarrow> fill E (usernameInput lp) name s = (Inl e, s'))
   \<and> (enterPassword E lp pw s = (Inl e, s') \<longleftrightarrow> fill E (passwordInput lp) pw s = (Inl e, s'))
   \<and> (clickLoginButton E lp s = (Inl e, s') \<longleftrightarrow> click E (loginButton lp) s = (Inl e, s'))
   \<and> (login E lp name pw s = (Inl e, s') \<longleftrightarrow>
        fill E (usernameInput lp) name s = (Inl e, s')
        \<or> (\<exists>s1. fill E (usernameInput lp) name s = (Inr (), s1)
              \<and> (fill E (passwordInput lp) pw s1 = (Inl e, s')
                  \<or> (\<exists>s2. fill E (passwordInput lp) pw s1 = (Inr (), s2)
                        \<and> click E (loginButton lp) s2 = (Inl e, s')))))
   \<and> (getErrorMessage E lp s = (Inl e, s') \<longleftrightarrow> textContent E (errorMessage lp) s = (Inl e, s'))
   \<and> (isErrorMessageVisible E lp s = (Inl e, s') \<longleftrightarrow> isVisible E (errorMessage lp) s = (Inl e, s'))
   \<and> (invalidCredentials F w = (Inl x, w') \<longleftrightarrow>
        (\<exists>r1. internet_userName F (rng w) = (Inl x, r1) \<and> w' = w\<lparr>rng := r1\<rparr>)
        \<or> (\<exists>u r1 r2. internet_userName F (rng w) = (Inr u, r1)
              \<and> internet_password F r1 = (Inl x, r2) \<and> w' = w\<lparr>rng := r2\<rparr>))
   \<and> (randomPassword F w = (Inl x, w') \<longleftrightarrow>
        (\<exists>r1. internet_password F (rng w) = (Inl x, r1) \<and> w' = w\<lparr>rng := r1\<rparr>))
   \<and> length (calls_made (navigate (logging E) lp) s) = 1
   \<and> length (calls_made (enterUsername (logging E) lp name) s) = 1
   \<and> length (calls_made (enterPassword (logging E) lp pw) s) = 1
   \<and> length (calls_made (clickLoginButton (logging E) lp) s) = 1
   \<and> length (calls_made (login (logging E) lp name pw) s) \<le> 3
   \<and> length (calls_made (getErrorMessage (logging E) lp) s) = 1
   \<and> length (calls_made (isErrorMessageVisible (logging E) lp) s) = 1"
proof (intro conjI)
  show "login E lp name pw s = (Inl e, s') \<longleftrightarrow>
        fill E (usernameInput lp) name s = (Inl e, s')
        \<or> (\<exists>s1. fill E (usernameInput lp) name s = (Inr (), s1)
              \<and> (fill E (passwordInput lp) pw s1 = (Inl e, s')
                  \<or> (\<exists>s2. fill E (passwordInput lp) pw s1 = (Inr (), s2)
                        \<and> click E (loginButton lp) s2 = (Inl e, s'))))"
    by (auto simp: login_unfold split: prod.splits sum.splits)
  show "invalidCredentials F w = (Inl x, w') \<longleftrightarrow>
        (\<exists>r1. internet_userName F (rng w) = (Inl x, r1) \<and> w' = w\<lparr>rng := r1\<rparr>)
        \<or> (\<exists>u r1 r2. internet_userName F (rng w) = (Inr u, r1)
              \<and> internet_password F r1 = (Inl x, r2) \<and> w' = w\<lparr>rng := r2\<rparr>)"
    by (auto simp: invalidCredentials_def await_def on_rng_def returning_def
        split: prod.splits sum.splits)
  show "randomPassword F w = (Inl x, w') \<longleftrightarrow>
        (\<exists>r1. internet_password F (rng w) = (Inl x, r1) \<and> w' = w\<lparr>rng := r1\<rparr>)"
    by (auto simp: randomPassword_eq on_rng_def split: prod.splits)
  show "length (calls_made (login (logging E) lp name pw) s) \<le> 3"
    by (simp add: login_calls split: prod.split sum.split)
qed (simp_all add: single_calls,
     simp_all add: navigate_eq enterUsername_eq enterPassword_eq clickLoginButton_eq
      getErrorMessage_eq isErrorMessageVisible_eq)

theorem errors_propagate_unchanged_witness:
  "navigate countdown_engine (new_LoginPage (PageHandle 0)) 0 = (Inl ''TimeoutError'', 0)
   \<and> login countdown_engine (new_LoginPage (PageHandle 0)) ''standard_user'' ''secret_sauce'' 0
        = (Inl ''TimeoutError'', 0)
   \<and> login countdown_engine (new_LoginPage (PageHandle 0)) ''standard_user'' ''secret_sauce'' 2
        = (Inl ''TimeoutError'', 0)
   \<and> getErrorMessage countdown_engine (new_LoginPage (PageHandle 0)) 0 = (Inl ''TimeoutError'', 0)
   \<and> invalidCredentials exhaustible_faker \<lparr> env = readme_env, rng = 0 \<rparr>
        = (Inl ''out of data'', \<lparr> env = readme_env, rng = 0 \<rparr>)
   \<and> invalidCredentials exhaustible_faker \<lparr> env = readme_env, rng = 1 \<rparr>
        = (Inl ''out of data'', \<lparr> env = readme_env, rng = 0 \<rparr>)
   \<and> randomPassword exhaustible_faker \<lparr> env = readme_env, rng = 0 \<rparr>
        = (Inl ''out of data'', \<lparr> env = readme_env, rng = 0 \<rparr>)"
  using errors_propagate_unchanged
    [of countdown_engine "new_LoginPage (PageHandle 0)" 0 "''TimeoutError''" 0
        "''standard_user''" "''secret_sauce''"
        exhaustible_faker "\<lparr> env = readme_env, rng = 0 \<rparr>" "''out of data''"
        "\<lparr> env = readme_env, rng = 0 \<rparr>"]
    errors_propagate_unchanged
    [of countdown_engine "new_LoginPage (PageHandle 0)" 2 "''TimeoutError''" 0
        "''standard_user''" "''secret_sauce''"
        exhaustible_faker "\<lparr> env = readme_env, rng = 1 \<rparr>" "''out of data''"
        "\<lparr> env = readme_env, rng = 0 \<rparr>"]
  by (simp add: countdown_engine_def countdown_def exhaustible_faker_def)

end
